theory Spec2Isabelle
  imports Complex_Main "HOL-Library.Word"
begin

unbundle bit_operations_syntax

section \<open>The B+ candidate selector (candidateSelectorBplusToD0Pi.cxx)\<close>

text \<open>
  The selector is a struct of configurables with three member functions:
  \<open>selectionTopol\<close>, \<open>selectionPID\<close> and \<open>process\<close>. The values of type \<open>double\<close> are
  modelled as real numbers: the properties below are about the order of the comparisons
  and the control flow, not about rounding.

  The data model headers are not part of the sources at hand. What the code reads from a
  candidate is a field of a record here; what it gets from a function defined elsewhere
  (\<open>invMassD0barToKPi\<close>, \<open>invMassD0ToPiK\<close>, \<open>getStatusTrackPIDTpcAndTof\<close>) is a field
  holding the value of that call for the row.
\<close>

subsection \<open>Data\<close>

text \<open>
  \<open>TrackSelectorPID::Status\<close>. The source names \<open>PIDAccepted\<close> and \<open>PIDRejected\<close>; the help
  text of \<open>acceptPIDNotApplicable\<close> names the two other enumerators.
\<close>

datatype Status = PIDNotApplicable | PIDRejected | PIDConditional | PIDAccepted

text \<open>Prong 1 of the candidate: the pion track. Its sign is compared with \<open>0\<close> as an integer.\<close>

record TrackPi =
  Pi_pt :: real
  Pi_sign :: int
  getStatusTrackPIDTpcAndTof :: Status

text \<open>Prong 0 of the candidate: the D0 candidate, seen through its two invariant masses.\<close>

record HfCandD0 =
  invMassD0barToKPi :: real
  invMassD0ToPiK :: real

text \<open>
  The B+ candidate. \<open>hfflag\<close> is the value of \<open>hfCandB.hfflag()\<close> as the operand of \<open>&\<close>,
  that is after promotion to \<open>int\<close>.
\<close>

record HfCandBplus =
  hfflag :: "32 word"
  B_pt :: real
  impactParameterProduct :: real
  decayLength :: real
  decayLengthXY :: real
  cpa :: real
  impactParameter0 :: real
  impactParameter1 :: real
  prong0 :: HfCandD0
  prong1 :: TrackPi

text \<open>
  The members of the struct that \<open>selectionTopol\<close>, \<open>selectionPID\<close> and \<open>process\<close> read.
  \<open>cuts\<close> is the labelled array, read as \<open>cuts->get(pTBin, "name")\<close>; the table behind it
  is declared in SelectorCuts.h and is a parameter here. The PID ranges only configure the
  external \<open>selectorPion\<close> in \<open>init\<close> and do not appear.
\<close>

record selector =
  usePid :: bool
  acceptPIDNotApplicable :: bool
  binsPt :: "real list"
  cuts :: "int \<Rightarrow> string \<Rightarrow> real"
  activateQA :: bool
  selectionFlagDAndUsePidInSync :: bool

text \<open>
  Two constants whose declarations are outside the sources at hand are parameters: the
  enumerator \<open>hf_cand_bplus::DecayType::BplusToD0Pi\<close> and the value of
  \<open>RecoDecay::getMassPDG(pdg::Code::kD0)\<close>.
\<close>

record externals =
  DecayType_BplusToD0Pi :: nat
  getMassPDG_kD0 :: real

text \<open>
  \<open>SelectionStep\<close>, with the values the comments of \<open>process\<close> give
  (\<open>RecoSkims = 0\<close>, \<open>RecoTopol = 1\<close>, \<open>RecoPID = 2\<close>).
\<close>

definition RecoSkims :: nat where
  "RecoSkims = 0"

definition RecoTopol :: nat where
  "RecoTopol = 1"

definition RecoPID :: nat where
  "RecoPID = 2"

text \<open>The macro \<open>SETBIT(n, i)\<close>: \<open>n |= (1 << i)\<close>.\<close>

definition SETBIT :: "32 word \<Rightarrow> nat \<Rightarrow> 32 word" where
  "SETBIT n i = n OR push_bit i 1"

subsection \<open>The pT bin lookup\<close>

text \<open>
  Modelled from the spec: \<open>findBin\<close> is defined in a header that is not among the sources.
  Section 4.1 of the specification: the bin containing \<open>pt\<close> among an ordered sequence of
  edges, by a linear scan, with half-open intervals \<open>[edge_i, edge_{i+1})\<close>, and the
  sentinel \<open>-1\<close> when \<open>pt\<close> is outside all edges.
\<close>

fun findBinFrom :: "real list \<Rightarrow> real \<Rightarrow> int \<Rightarrow> int" where
  "findBinFrom (lo # hi # es) v i =
     (if lo \<le> v \<and> v < hi then i else findBinFrom (hi # es) v (i + 1))"
| "findBinFrom es v i = - 1"

definition findBin :: "real list \<Rightarrow> real \<Rightarrow> int" where
  "findBin bins v = findBinFrom bins v 0"

subsection \<open>selectionTopol\<close>

text \<open>
  After the bin lookup the function is a sequence of checks, each of the form
  \<open>if (guard) { if (condition on a cut) return false; }\<close>, most of them with no guard.
  The sequence is written as a list of triples (guard, name of the check, failing
  condition) in the order of the source, and \<open>runChecks\<close> runs it: a check whose guard
  holds is evaluated and logged, and the first failing one returns \<open>false\<close>. The log is
  what lets a statement speak of the checks that were evaluated.
\<close>

datatype topolCheck =
  PtPi | ImpParProduct | MassD0bar | MassD0 | DecLen | DecLenXY | CPA | D0D0 | D0Pi

fun runChecks :: "(bool \<times> topolCheck \<times> bool) list \<Rightarrow> topolCheck list \<times> bool" where
  "runChecks [] = ([], True)"
| "runChecks ((guard, c, fails) # rest) =
     (if guard then
        (if fails then ([c], False)
         else (c # fst (runChecks rest), snd (runChecks rest)))
      else runChecks rest)"

definition selectionTopolLog ::
  "externals \<Rightarrow> selector \<Rightarrow> HfCandBplus \<Rightarrow> HfCandD0 \<Rightarrow> TrackPi \<Rightarrow> topolCheck list \<times> bool" where
  "selectionTopolLog ext s hfCandBplus hfCandD0 trackPi =
     (let candpT = B_pt hfCandBplus;
          pTBin = findBin (binsPt s) candpT
      in if pTBin = - 1 then ([], False)
         else runChecks
           [(True, PtPi, Pi_pt trackPi < cuts s pTBin ''pT Pi''),
            (True, ImpParProduct,
               impactParameterProduct hfCandBplus > cuts s pTBin ''Imp. Par. Product''),
            (Pi_sign trackPi > 0, MassD0bar,
               \<bar>invMassD0barToKPi hfCandD0 - getMassPDG_kD0 ext\<bar> > cuts s pTBin ''DeltaMD0''),
            (Pi_sign trackPi < 0, MassD0,
               \<bar>invMassD0ToPiK hfCandD0 - getMassPDG_kD0 ext\<bar> > cuts s pTBin ''DeltaMD0''),
            (True, DecLen, decayLength hfCandBplus < cuts s pTBin ''B decLen''),
            (True, DecLenXY, decayLengthXY hfCandBplus < cuts s pTBin ''B decLenXY''),
            (True, CPA, cpa hfCandBplus < cuts s pTBin ''CPA''),
            (True, D0D0, \<bar>impactParameter0 hfCandBplus\<bar> < cuts s pTBin ''d0 D0''),
            (True, D0Pi, \<bar>impactParameter1 hfCandBplus\<bar> < cuts s pTBin ''d0 Pi'')])"

definition selectionTopol ::
  "externals \<Rightarrow> selector \<Rightarrow> HfCandBplus \<Rightarrow> HfCandD0 \<Rightarrow> TrackPi \<Rightarrow> bool" where
  "selectionTopol ext s hfCandBplus hfCandD0 trackPi =
     snd (selectionTopolLog ext s hfCandBplus hfCandD0 trackPi)"

text \<open>The mass window checks among the checks that a call evaluated, in their order.\<close>

definition massChecks :: "topolCheck list \<Rightarrow> topolCheck list" where
  "massChecks checks = filter (\<lambda>c. c = MassD0bar \<or> c = MassD0) checks"

subsection \<open>selectionPID\<close>

definition selectionPID :: "selector \<Rightarrow> Status \<Rightarrow> bool" where
  "selectionPID s pidTrackPi =
     (if \<not> acceptPIDNotApplicable s \<and> pidTrackPi \<noteq> PIDAccepted then False
      else if acceptPIDNotApplicable s \<and> pidTrackPi = PIDRejected then False
      else True)"

subsection \<open>process\<close>

text \<open>
  What the body of the loop does for one candidate, as the list of its actions in order:
  a fill of the QA histogram, a call of \<open>selectionTopol\<close> (with the checks it evaluated),
  the PID status obtained for the pion and passed to \<open>selectionPID\<close>, and the row written
  to the output table.
\<close>

datatype action =
  FillQA string nat real
| Topol "topolCheck list"
| Pid Status
| Output "32 word"

definition processCandidate :: "externals \<Rightarrow> selector \<Rightarrow> HfCandBplus \<Rightarrow> action list" where
  "processCandidate ext s hfCandB =
     (let statusBplus = 0;
          ptCandB = B_pt hfCandB
      in if \<not> (hfflag hfCandB AND push_bit (DecayType_BplusToD0Pi ext) 1 \<noteq> 0) then
           [Output statusBplus]
         else
           let statusBplus = SETBIT statusBplus RecoSkims;
               qaSkims = (if activateQA s
                          then [FillQA ''hSelections'' (2 + RecoSkims) ptCandB] else []);
               candD0 = prong0 hfCandB;
               trackPi = prong1 hfCandB;
               topol = selectionTopolLog ext s hfCandB candD0 trackPi
           in if \<not> snd topol then
                qaSkims @ [Topol (fst topol), Output statusBplus]
              else
                let statusBplus = SETBIT statusBplus RecoTopol;
                    qaTopol = (if activateQA s
                               then [FillQA ''hSelections'' (2 + RecoTopol) ptCandB] else []);
                    acts = qaSkims @ [Topol (fst topol)] @ qaTopol
                in if \<not> selectionFlagDAndUsePidInSync s then
                     acts @ [Output statusBplus]
                   else if usePid s then
                     (let pidTrackPi = getStatusTrackPIDTpcAndTof trackPi
                      in if \<not> selectionPID s pidTrackPi then
                           acts @ [Pid pidTrackPi, Output statusBplus]
                         else
                           let statusBplus = SETBIT statusBplus RecoPID;
                               qaPID = (if activateQA s
                                        then [FillQA ''hSelections'' (2 + RecoPID) ptCandB]
                                        else [])
                           in acts @ [Pid pidTrackPi] @ qaPID @ [Output statusBplus])
                   else acts @ [Output statusBplus])"

definition process :: "externals \<Rightarrow> selector \<Rightarrow> HfCandBplus list \<Rightarrow> action list" where
  "process ext s hfCandBs = concat (map (processCandidate ext s) hfCandBs)"

text \<open>The statuses written to the output table, and the PID statuses looked at.\<close>

fun emitted :: "action list \<Rightarrow> 32 word list" where
  "emitted [] = []"
| "emitted (Output st # as) = st # emitted as"
| "emitted (a # as) = emitted as"

fun pidCalls :: "action list \<Rightarrow> Status list" where
  "pidCalls [] = []"
| "pidCalls (Pid st # as) = st # pidCalls as"
| "pidCalls (a # as) = pidCalls as"

section \<open>The K1 reconstruction (k1analysis.cxx)\<close>

text \<open>
  \<open>fillHistograms\<close> loops over all pairs of tracks of \<open>dTracks2\<close> (pion candidate
  \<open>trk1\<close>, kaon candidate \<open>trk2\<close>), builds the K(892) of each pair that survives the
  cuts, and loops over \<open>dTracks1\<close> for the bachelor pion of the K1. Its effects are the
  fills of histograms. The four-vector arithmetic of \<open>TLorentzVector\<close> belongs to an
  external library: the quantities the code reads from it are parameters.
\<close>

subsection \<open>Data\<close>

record ResoTrack =
  index :: int
  sign :: int
  pt :: real
  px :: real
  py :: real
  pz :: real
  dcaXY :: real
  dcaZ :: real
  tofPIDselectionFlag :: "8 word"
  tpcNSigmaPi :: real
  tofNSigmaPi :: real
  tpcNSigmaKa :: real
  tofNSigmaKa :: real
  pdgCode :: int
  motherId :: int
  motherPDG :: int

record k1config =
  cMinPtcut :: real
  cMaxDCArToPVcut :: real
  cMaxDCAzToPVcut :: real
  cMinDCAzToPVcut :: real
  cMaxTPCnSigmaPion :: real
  cMaxTPCnSigmaPion_bach :: real
  cMaxTOFnSigmaPion :: real
  cMaxTOFnSigmaPion_bach :: real
  kaonTPCPIDpTintv :: "real list"
  kaonTPCPIDcuts :: "real list"
  kaonTOFPIDpTintv :: "real list"
  kaonTOFPIDcuts :: "real list"
  cDoTOFPID :: int
  cK892masswindow :: real
  cPiPiMin :: real
  cPiPiMax :: real
  cK1MaxRap :: real
  cK1MinRap :: real

text \<open>
  What the code takes from outside the file: the flag bit \<open>aod::resodaughter::kHasTOF\<close>,
  the PDG codes \<open>kPiPlus\<close> and \<open>kKPlus\<close>, the mass \<open>massK892\<close> read from the particle
  database, and the kinematics: \<open>lResonanceK892.M()\<close> of a pair, \<open>lResonanceK1.Rapidity()\<close>
  of a pair with its bachelor, and \<open>tempPiPi.M()\<close> of \<open>trk1\<close> with the bachelor.
\<close>

record k1externals =
  kHasTOF :: "8 word"
  kPiPlus :: int
  kKPlus :: int
  massK892 :: real
  K892_M :: "ResoTrack \<Rightarrow> ResoTrack \<Rightarrow> real"
  K1_Rapidity :: "ResoTrack \<Rightarrow> ResoTrack \<Rightarrow> ResoTrack \<Rightarrow> real"
  PiPi_M :: "ResoTrack \<Rightarrow> ResoTrack \<Rightarrow> real"

text \<open>The enumerators of \<open>k1Type\<close>, \<open>k892Type\<close> and \<open>kMCType\<close> that the fills use.\<close>

definition kMatterPos :: nat where "kMatterPos = 1"
definition kMatterNeg :: nat where "kMatterNeg = 2"
definition kAntiPos :: nat where "kAntiPos = 3"
definition kAntiNeg :: nat where "kAntiNeg = 4"
definition kMatterPos_Mix :: nat where "kMatterPos_Mix = 5"
definition kMatterNeg_Mix :: nat where "kMatterNeg_Mix = 6"
definition kAntiPos_Mix :: nat where "kAntiPos_Mix = 7"
definition kAntiNeg_Mix :: nat where "kAntiNeg_Mix = 8"
definition kK892Matter :: nat where "kK892Matter = 1"
definition kK892Anti :: nat where "kK892Anti = 2"
definition kRecon :: nat where "kRecon = 2"

text \<open>
  A call of \<open>histos.fill\<close>: the name of the histogram, the type it is filled with (for the
  histograms with a type axis), and the combination in scope at the call: \<open>trk1\<close> (the
  pion candidate), \<open>trk2\<close> (the kaon candidate) and, inside the bachelor loop,
  \<open>bTrack\<close>. The filled numbers are functions of
  these tracks and of the collision and are not kept.
\<close>

datatype fill =
  Fill (hist: string) (htype: "nat option") (pion: ResoTrack) (kaon: ResoTrack)
    (bachelor: "ResoTrack option")

text \<open>
  Reading a \<open>std::vector\<close> with \<open>operator[]\<close> beyond its size is undefined behaviour. The
  model stops there with a fault.
\<close>

datatype fault = OutOfRange

definition vecAt :: "real list \<Rightarrow> nat \<Rightarrow> fault + real" where
  "vecAt v i = (if i < length v then Inr (v ! i) else Inl OutOfRange)"

subsection \<open>trackCut\<close>

definition trackCut :: "k1config \<Rightarrow> ResoTrack \<Rightarrow> bool" where
  "trackCut cfg track =
     (if pt track < cMinPtcut cfg then False
      else if dcaXY track > cMaxDCArToPVcut cfg then False
      else if dcaZ track < cMinDCAzToPVcut cfg \<or> dcaZ track > cMaxDCAzToPVcut cfg then False
      else True)"

subsection \<open>The kaon identification gates\<close>

text \<open>
  The loop \<open>for (int i = 0; i < n; i++) if (ptKa < intv[i]) if (abs(nSigma) > cuts[i])
  isTrk2Selected = false;\<close>, from index \<open>i\<close> on. The source has it twice: on the TPC
  vectors and on the TOF vectors, both times with the bound
  \<open>n = lengthOfkaonTPCPIDpTintv\<close>.
\<close>

function kaonPIDloop ::
  "real list \<Rightarrow> real list \<Rightarrow> nat \<Rightarrow> real \<Rightarrow> real \<Rightarrow> nat \<Rightarrow> bool \<Rightarrow> fault + bool" where
  "kaonPIDloop intv cutsv n ptKa nSigmaKa i isTrk2Selected =
     (if i < n then
        (case vecAt intv i of
           Inl f \<Rightarrow> Inl f
         | Inr bound \<Rightarrow>
             if ptKa < bound then
               (case vecAt cutsv i of
                  Inl f \<Rightarrow> Inl f
                | Inr nSigmaMax \<Rightarrow>
                    kaonPIDloop intv cutsv n ptKa nSigmaKa (Suc i)
                      (if \<bar>nSigmaKa\<bar> > nSigmaMax then False else isTrk2Selected))
             else kaonPIDloop intv cutsv n ptKa nSigmaKa (Suc i) isTrk2Selected)
      else Inr isTrk2Selected)"
  by pat_completeness auto
termination
  by (relation "measure (\<lambda>(intv, cutsv, n, ptKa, nSigmaKa, i, sel). n - i)") auto

declare kaonPIDloop.simps [simp del]

text \<open>
  Lines 232 to 251 for the kaon candidate \<open>trk2\<close>: the TPC gate, then the TOF gate when
  the track has a TOF signal. The result is the value of \<open>isTrk2Selected\<close> after them.
\<close>

definition kaonPID :: "k1externals \<Rightarrow> k1config \<Rightarrow> ResoTrack \<Rightarrow> fault + bool" where
  "kaonPID ext cfg trk =
     (let vKaonTPCPIDpTintv = kaonTPCPIDpTintv cfg;
          vKaonTPCPIDcuts = kaonTPCPIDcuts cfg;
          vKaonTOFPIDpTintv = kaonTOFPIDpTintv cfg;
          vKaonTOFPIDcuts = kaonTOFPIDcuts cfg;
          lengthOfkaonTPCPIDpTintv = length vKaonTPCPIDpTintv;
          isTrk2hasTOF = (tofPIDselectionFlag trk AND kHasTOF ext = kHasTOF ext);
          trk2ptKa = pt trk
      in case (if lengthOfkaonTPCPIDpTintv > 0
               then kaonPIDloop vKaonTPCPIDpTintv vKaonTPCPIDcuts lengthOfkaonTPCPIDpTintv
                      trk2ptKa (tpcNSigmaKa trk) 0 True
               else Inr True) of
           Inl f \<Rightarrow> Inl f
         | Inr isTrk2Selected \<Rightarrow>
             if isTrk2hasTOF then
               (if lengthOfkaonTPCPIDpTintv > 0
                then kaonPIDloop vKaonTOFPIDpTintv vKaonTOFPIDcuts lengthOfkaonTPCPIDpTintv
                       trk2ptKa (tofNSigmaKa trk) 0 isTrk2Selected
                else Inr isTrk2Selected)
             else Inr isTrk2Selected)"


subsection \<open>The pair stage of fillHistograms\<close>

text \<open>
  The body of the loop over pairs, from the index test down to the mass window of the
  K(892): the fills it makes for the pair, and how it leaves: by a \<open>continue\<close>, by a
  fault of the kaon gates, or into the loop over bachelor tracks.
\<close>

datatype pairResult = Rejected | Halted fault | Propagated

definition pairStage ::
  "bool \<Rightarrow> k1externals \<Rightarrow> k1config \<Rightarrow> ResoTrack \<Rightarrow> ResoTrack \<Rightarrow> fill list \<times> pairResult" where
  "pairStage IsMix ext cfg trk1 trk2 =
     (if index trk1 = index trk2 then ([], Rejected)
      else if sign trk1 * sign trk2 > 0 then ([], Rejected)
      else if \<not> trackCut cfg trk1 then ([], Rejected)
      else if \<not> trackCut cfg trk2 then ([], Rejected)
      else
        let isTrk1hasTOF = (tofPIDselectionFlag trk1 AND kHasTOF ext = kHasTOF ext);
            isTrk1Selected = True;
            isTrk1Selected =
              (if \<bar>tpcNSigmaPi trk1\<bar> > cMaxTPCnSigmaPion cfg then False else isTrk1Selected);
            isTrk1Selected =
              (if isTrk1hasTOF then
                 (if \<bar>tofNSigmaPi trk1\<bar> > cMaxTOFnSigmaPion cfg then False
                  else isTrk1Selected)
               else isTrk1Selected)
        in case kaonPID ext cfg trk2 of
             Inl f \<Rightarrow> ([], Halted f)
           | Inr isTrk2Selected \<Rightarrow>
               let h = (\<lambda>name. Fill name None trk1 trk2 None);
                   qaBefore =
                     (if \<not> IsMix then
                        [h ''QAbefore/TPC_Nsigma_pi''] @
                        (if isTrk1hasTOF
                         then [h ''QAbefore/TOF_Nsigma_pi'', h ''QAbefore/TOF_TPC_Map_pi'']
                         else []) @
                        [h ''QAbefore/TPC_Nsigmaka''] @
                        (if isTrk1hasTOF
                         then [h ''QAbefore/TOF_Nsigma_ka'', h ''QAbefore/TOF_TPC_Map_ka'']
                         else []) @
                        [h ''QAbefore/trkpT_pi'', h ''QAbefore/trkpT_ka'']
                      else [])
               in if \<not> isTrk1Selected \<or> \<not> isTrk2Selected then (qaBefore, Rejected)
                  else
                    let qaAfter =
                          (if \<not> IsMix then
                             [h ''QAafter/TPC_Nsigma_pi''] @
                             (if isTrk1hasTOF
                              then [h ''QAafter/TOF_Nsigma_pi'', h ''QAafter/TOF_TPC_Map_pi'']
                              else []) @
                             [h ''QAafter/TPC_Nsigmaka''] @
                             (if isTrk1hasTOF
                              then [h ''QAafter/TOF_Nsigma_ka'', h ''QAafter/TOF_TPC_Map_ka'']
                              else []) @
                             [h ''QAafter/trkpT_pi'', h ''QAafter/trkpT_ka'']
                           else []);
                        isK892Anti = (sign trk2 > 0);
                        k892 =
                          (if \<not> IsMix then
                             [h ''k892invmass'',
                              Fill ''THnK892invmass''
                                (Some (if isK892Anti then kK892Anti else kK892Matter))
                                trk1 trk2 None]
                           else [])
                    in if \<bar>K892_M ext trk1 trk2 - massK892 ext\<bar> > cK892masswindow cfg
                       then (qaBefore @ qaAfter @ k892, Rejected)
                       else (qaBefore @ qaAfter @ k892, Propagated))"

subsection \<open>The bachelor loop\<close>

text \<open>The body of the loop over \<open>dTracks1\<close> for a pair that passed the mass window.\<close>

definition bachelorBody ::
  "bool \<Rightarrow> bool \<Rightarrow> k1externals \<Rightarrow> k1config \<Rightarrow> ResoTrack \<Rightarrow> ResoTrack \<Rightarrow> ResoTrack \<Rightarrow> fill list" where
  "bachelorBody IsMC IsMix ext cfg trk1 trk2 bTrack =
     (if index bTrack = index trk1 \<or> index bTrack = index trk2 then []
      else if \<not> trackCut cfg bTrack then []
      else
        let isTrk1hasTOF = (tofPIDselectionFlag trk1 AND kHasTOF ext = kHasTOF ext);
            isK892Anti = (sign trk2 > 0);
            h = (\<lambda>name ty. Fill name ty trk1 trk2 (Some bTrack));
            isbTrkSelected = True;
            isbTrkhasTOF = (tofPIDselectionFlag bTrack AND kHasTOF ext = kHasTOF ext);
            isbTrkSelected =
              (if \<bar>tpcNSigmaPi bTrack\<bar> > cMaxTPCnSigmaPion_bach cfg then False
               else isbTrkSelected);
            isbTrkSelected =
              (if cDoTOFPID cfg \<noteq> 0 \<and> isbTrkhasTOF then
                 (if \<bar>tofNSigmaPi bTrack\<bar> > cMaxTOFnSigmaPion_bach cfg then False
                  else isbTrkSelected)
               else isbTrkSelected);
            qaBefore =
              (if \<not> IsMix then
                 [h ''QAbefore/trkpT_pi_bach'' None, h ''QAbefore/TPC_Nsigma_pi_bach'' None] @
                 (if isTrk1hasTOF
                  then [h ''QAbefore/TOF_Nsigma_pi_bach'' None,
                        h ''QAbefore/TOF_TPC_Map_pi_bach'' None]
                  else [])
               else [])
        in if \<not> isbTrkSelected then qaBefore
           else
             let qaAfter =
                   (if \<not> IsMix then
                      [h ''QAafter/trkpT_pi_bach'' None, h ''QAafter/TPC_Nsigma_pi_bach'' None] @
                      (if isTrk1hasTOF
                       then [h ''QAafter/TOF_Nsigma_pi_bach'' None,
                             h ''QAafter/TOF_TPC_Map_pi_bach'' None]
                       else [])
                    else [])
             in if K1_Rapidity ext trk1 trk2 bTrack > cK1MaxRap cfg
                   \<or> K1_Rapidity ext trk1 trk2 bTrack < cK1MinRap cfg
                then qaBefore @ qaAfter
                else
                  let qaPiPi =
                        (if \<not> IsMix then [h ''QAMCbefore/InvMass_piK_pipi'' None] else [])
                  in if PiPi_M ext trk1 bTrack < cPiPiMin cfg
                        \<or> PiPi_M ext trk1 bTrack > cPiPiMax cfg
                     then qaBefore @ qaAfter @ qaPiPi
                     else
                       let k1 =
                             (if \<not> IsMix then
                                (if sign bTrack > 0 then
                                   (if \<not> isK892Anti
                                    then [h ''k1invmass'' None,
                                          h ''THnK1invmass'' (Some kMatterPos)]
                                    else [h ''THnK1invmass'' (Some kAntiPos)])
                                 else
                                   (if \<not> isK892Anti
                                    then [h ''THnK1invmass'' (Some kMatterNeg)]
                                    else [h ''k1invmass'' None,
                                          h ''THnK1invmass'' (Some kAntiNeg)]))
                              else
                                (if sign bTrack > 0 then
                                   (if \<not> isK892Anti
                                    then [h ''k1invmass'' None,
                                          h ''THnK1invmass'' (Some kMatterPos_Mix)]
                                    else [h ''THnK1invmass'' (Some kAntiPos_Mix)])
                                 else
                                   (if \<not> isK892Anti
                                    then [h ''THnK1invmass'' (Some kMatterNeg_Mix)]
                                    else [h ''k1invmass'' None,
                                          h ''THnK1invmass'' (Some kAntiNeg_Mix)])));
                           mc =
                             (if IsMC then
                                (if \<bar>pdgCode trk1\<bar> \<noteq> kPiPlus ext
                                    \<or> \<bar>pdgCode trk2\<bar> \<noteq> kKPlus ext then []
                                 else if motherId trk1 = motherId trk2 then
                                   (if \<bar>motherPDG trk1\<bar> = 313 then
                                      [h ''hReconK892pt'' None] @
                                      (if \<bar>pdgCode bTrack\<bar> \<noteq> kPiPlus ext then []
                                       else if \<bar>motherPDG bTrack\<bar> = 10323 then
                                         [h ''hReconK1pt'' None,
                                          h ''THnK1invmassMC'' (Some kRecon),
                                          h ''QAMCafter/InvMass_piK_pipi'' None]
                                       else [])
                                    else [])
                                 else [])
                              else [])
                       in qaBefore @ qaAfter @ qaPiPi @ k1 @ mc)"

subsection \<open>fillHistograms\<close>

text \<open>
  One pair: its own stage and, when it is propagated, the bachelor loop. The result is
  the fills made and the fault that stopped them, if any.
\<close>

definition pairBody ::
  "bool \<Rightarrow> bool \<Rightarrow> k1externals \<Rightarrow> k1config \<Rightarrow> ResoTrack list \<Rightarrow> ResoTrack \<Rightarrow> ResoTrack
     \<Rightarrow> fill list \<times> fault option" where
  "pairBody IsMC IsMix ext cfg dTracks1 trk1 trk2 =
     (case pairStage IsMix ext cfg trk1 trk2 of
        (fs, Propagated) \<Rightarrow>
          (fs @ concat (map (bachelorBody IsMC IsMix ext cfg trk1 trk2) dTracks1), None)
      | (fs, Halted f) \<Rightarrow> (fs, Some f)
      | (fs, Rejected) \<Rightarrow> (fs, None))"

fun pairLoop ::
  "bool \<Rightarrow> bool \<Rightarrow> k1externals \<Rightarrow> k1config \<Rightarrow> ResoTrack list \<Rightarrow> (ResoTrack \<times> ResoTrack) list
     \<Rightarrow> fill list \<times> fault option" where
  "pairLoop IsMC IsMix ext cfg dTracks1 [] = ([], None)"
| "pairLoop IsMC IsMix ext cfg dTracks1 ((trk1, trk2) # rest) =
     (case pairBody IsMC IsMix ext cfg dTracks1 trk1 trk2 of
        (fs, Some f) \<Rightarrow> (fs, Some f)
      | (fs, None) \<Rightarrow>
          (fs @ fst (pairLoop IsMC IsMix ext cfg dTracks1 rest),
           snd (pairLoop IsMC IsMix ext cfg dTracks1 rest)))"

text \<open>
  Modelled from the spec: \<open>combinations(CombinationsFullIndexPolicy(dTracks2, dTracks2))\<close>
  belongs to the framework, which is not among the sources. Section 4.4, step 1, and the
  comment in the loop: all ordered pairs of the list with itself, the pairs of a track
  with itself included (the loop body drops them).
\<close>

definition combinationsFullIndex :: "ResoTrack list \<Rightarrow> (ResoTrack \<times> ResoTrack) list" where
  "combinationsFullIndex dTracks2 = List.product dTracks2 dTracks2"

definition fillHistograms ::
  "bool \<Rightarrow> bool \<Rightarrow> k1externals \<Rightarrow> k1config \<Rightarrow> ResoTrack list \<Rightarrow> ResoTrack list
     \<Rightarrow> fill list \<times> fault option" where
  "fillHistograms IsMC IsMix ext cfg dTracks1 dTracks2 =
     pairLoop IsMC IsMix ext cfg dTracks1 (combinationsFullIndex dTracks2)"

section \<open>Example inputs\<close>

text \<open>
  A selector with three pT bin edges and all cuts at \<open>0\<close>, and a candidate in the second
  bin that passes every stage: its D0 masses sit on the reference mass and its pion is
  accepted by the PID.
\<close>

definition exExternals :: externals where
  "exExternals = \<lparr>DecayType_BplusToD0Pi = 0, getMassPDG_kD0 = 2\<rparr>"

definition exSelector :: selector where
  "exSelector = \<lparr>usePid = True, acceptPIDNotApplicable = True, binsPt = [0, 5, 10],
     cuts = (\<lambda>pTBin name. 0), activateQA = False, selectionFlagDAndUsePidInSync = True\<rparr>"

definition exTrackPi :: TrackPi where
  "exTrackPi = \<lparr>Pi_pt = 1, Pi_sign = 1, getStatusTrackPIDTpcAndTof = PIDAccepted\<rparr>"

definition exCandD0 :: HfCandD0 where
  "exCandD0 = \<lparr>invMassD0barToKPi = 2, invMassD0ToPiK = 2\<rparr>"

definition exCandB :: HfCandBplus where
  "exCandB = \<lparr>hfflag = 1, B_pt = 6, impactParameterProduct = - 1, decayLength = 1,
     decayLengthXY = 1, cpa = 1, impactParameter0 = 1, impactParameter1 = 1,
     prong0 = exCandD0, prong1 = exTrackPi\<rparr>"

lemmas ex_defs = exExternals_def exSelector_def exTrackPi_def exCandD0_def exCandB_def

text \<open>
  A configuration of the K1 analysis with two kaon breakpoints (below 0.5: 2 sigma, below
  999: 3 sigma), and tracks that pass the track cut, with no TOF signal and all
  \<open>nSigma\<close> at \<open>0\<close>. The kinematics are constant: every pair is inside the K(892) mass
  window, every triple inside the rapidity window.
\<close>

definition exK1externals :: k1externals where
  "exK1externals = \<lparr>kHasTOF = 1, kPiPlus = 211, kKPlus = 321, massK892 = 9 / 10,
     K892_M = (\<lambda>trk1 trk2. 9 / 10), K1_Rapidity = (\<lambda>trk1 trk2 bTrack. 0),
     PiPi_M = (\<lambda>trk1 bTrack. 1 / 2)\<rparr>"

definition exK1config :: k1config where
  "exK1config = \<lparr>cMinPtcut = 15 / 100, cMaxDCArToPVcut = 1 / 2, cMaxDCAzToPVcut = 2,
     cMinDCAzToPVcut = 0, cMaxTPCnSigmaPion = 2, cMaxTPCnSigmaPion_bach = 2,
     cMaxTOFnSigmaPion = 2, cMaxTOFnSigmaPion_bach = 2,
     kaonTPCPIDpTintv = [1 / 2, 999], kaonTPCPIDcuts = [2, 3],
     kaonTOFPIDpTintv = [1 / 2, 999], kaonTOFPIDcuts = [2, 3],
     cDoTOFPID = 1, cK892masswindow = 1 / 10, cPiPiMin = 0, cPiPiMax = 999,
     cK1MaxRap = 1 / 2, cK1MinRap = - (1 / 2)\<rparr>"

definition exTrack :: "int \<Rightarrow> int \<Rightarrow> ResoTrack" where
  "exTrack i s = \<lparr>index = i, sign = s, pt = 1, px = 1, py = 0, pz = 0, dcaXY = 1 / 10,
     dcaZ = 1 / 10, tofPIDselectionFlag = 0, tpcNSigmaPi = 0, tofNSigmaPi = 0,
     tpcNSigmaKa = 0, tofNSigmaKa = 0, pdgCode = 211, motherId = 0, motherPDG = 313\<rparr>"


lemmas exk = exK1externals_def exK1config_def exTrack_def

section \<open>Properties of the B+ candidate selector\<close>

subsection \<open>Supporting lemmas\<close>

lemma emitted_append: "emitted (xs @ ys) = emitted xs @ emitted ys"
  by (induction xs rule: emitted.induct) simp_all

lemma pidCalls_append: "pidCalls (xs @ ys) = pidCalls xs @ pidCalls ys"
  by (induction xs rule: pidCalls.induct) simp_all

text \<open>The one status that \<open>process\<close> writes for a candidate, stage by stage.\<close>

lemma emitted_processCandidate:
  "emitted (processCandidate ext s c) =
     [if \<not> bit (hfflag c) (DecayType_BplusToD0Pi ext) then 0
      else if \<not> selectionTopol ext s c (prong0 c) (prong1 c) then 1
      else if \<not> selectionFlagDAndUsePidInSync s \<or> \<not> usePid s then 3
      else if \<not> selectionPID s (getStatusTrackPIDTpcAndTof (prong1 c)) then 3
      else 7]"
  by (simp add: processCandidate_def and_exp_eq_0_iff_not_bit Let_def emitted_append
      selectionTopol_def SETBIT_def RecoSkims_def RecoTopol_def RecoPID_def)

lemma emitted_process:
  "emitted (process ext s cs) = concat (map (\<lambda>c. emitted (processCandidate ext s c)) cs)"
  by (induction cs) (simp_all add: process_def emitted_append)

text \<open>One row is written per candidate, in the order of the input.\<close>

lemma length_emitted_process: "length (emitted (process ext s cs)) = length cs"
  by (induction cs) (simp_all add: emitted_process emitted_processCandidate)

lemma prefix_bits:
  "st \<in> {0, 1, 3, 7} \<Longrightarrow> bit st k \<Longrightarrow> j < k \<Longrightarrow> bit st j" for st :: "32 word"
proof -
  assume a: "st \<in> {0, 1, 3, 7}" and b: "bit st k" and c: "j < k"
  have "st = mask 0 \<or> st = mask 1 \<or> st = mask 2 \<or> st = mask 3"
    using a by (auto simp: mask_eq_exp_minus_1)
  then obtain n :: nat where n: "st = mask n" by blast
  from b n have "k < n" by (simp add: bit_mask_iff)
  with b c n show ?thesis by (simp add: bit_mask_iff)
qed

text \<open>
  The modelled \<open>findBin\<close> answers \<open>-1\<close> exactly when the value lies in none of the
  half-open intervals between consecutive edges; for sorted edges this covers every value
  below the first edge and every value at or above the last one.
\<close>

lemma findBinFrom_not_found:
  "0 \<le> i \<Longrightarrow>
     findBinFrom bins v i = - 1 \<longleftrightarrow>
       \<not> (\<exists>j. Suc j < length bins \<and> bins ! j \<le> v \<and> v < bins ! Suc j)"
proof (induction bins v i rule: findBinFrom.induct)
  case (1 lo hi es v i)
  let ?in = "\<lambda>xs. \<exists>j. Suc j < length xs \<and> xs ! j \<le> v \<and> v < xs ! Suc j"
  show ?case
  proof (cases "lo \<le> v \<and> v < hi")
    case True
    then have "?in (lo # hi # es)"
      by (intro exI [of _ 0]) simp
    with True "1.prems" show ?thesis by simp
  next
    case False
    have "?in (lo # hi # es) \<longleftrightarrow> ?in (hi # es)"
    proof
      assume "?in (lo # hi # es)"
      then obtain j where j: "Suc j < length (lo # hi # es)" "(lo # hi # es) ! j \<le> v"
        "v < (lo # hi # es) ! Suc j"
        by blast
      with False obtain k where "j = Suc k" by (cases j) auto
      with j show "?in (hi # es)"
        by (intro exI [of _ k]) simp
    next
      assume "?in (hi # es)"
      then obtain j where "Suc j < length (hi # es)" "(hi # es) ! j \<le> v" "v < (hi # es) ! Suc j"
        by blast
      then show "?in (lo # hi # es)"
        by (intro exI [of _ "Suc j"]) simp
    qed
    moreover have "findBinFrom (lo # hi # es) v i = findBinFrom (hi # es) v (i + 1)"
      using False by auto
    moreover have "findBinFrom (hi # es) v (i + 1) = - 1 \<longleftrightarrow> \<not> ?in (hi # es)"
      using "1.IH" [OF False] "1.prems" by simp
    ultimately show ?thesis by simp
  qed
qed simp_all

lemma findBin_not_found:
  "findBin bins v = - 1 \<longleftrightarrow>
     \<not> (\<exists>j. Suc j < length bins \<and> bins ! j \<le> v \<and> v < bins ! Suc j)"
  unfolding findBin_def by (rule findBinFrom_not_found) simp

lemma findBin_outside_edges:
  assumes "sorted bins" and "bins = [] \<or> v < hd bins \<or> last bins \<le> v"
  shows "findBin bins v = - 1"
proof -
  have "\<not> (\<exists>j. Suc j < length bins \<and> bins ! j \<le> v \<and> v < bins ! Suc j)"
  proof
    assume "\<exists>j. Suc j < length bins \<and> bins ! j \<le> v \<and> v < bins ! Suc j"
    then obtain j where j: "Suc j < length bins" "bins ! j \<le> v" "v < bins ! Suc j" by blast
    then have ne: "bins \<noteq> []" by auto
    have "hd bins \<le> bins ! j"
      using assms(1) j(1) ne by (simp add: hd_conv_nth sorted_iff_nth_mono)
    moreover have "bins ! Suc j \<le> last bins"
      using assms(1) j(1) ne by (simp add: last_conv_nth sorted_iff_nth_mono)
    ultimately show False using assms(2) ne j by auto
  qed
  then show ?thesis by (simp add: findBin_not_found)
qed

subsection \<open>The status bitmask\<close>

text \<open>
  Claim C1. Every status that \<open>process\<close> writes is one of 0, 1, 3 and 7, and so is
  prefix-monotonic: when bit \<open>k\<close> is set, every bit below \<open>k\<close> is set.
\<close>

theorem status_prefix_monotonic:
  "st \<in> set (emitted (process ext s hfCandBs)) \<Longrightarrow>
     st \<in> {0, 1, 3, 7} \<and> (\<forall>k j. bit st k \<longrightarrow> j < k \<longrightarrow> bit st j)"
proof -
  assume "st \<in> set (emitted (process ext s hfCandBs))"
  then obtain c where "st \<in> set (emitted (processCandidate ext s c))"
    by (auto simp: emitted_process)
  then have "st \<in> {0, 1, 3, 7}"
    by (simp add: emitted_processCandidate split: if_splits)
  then show ?thesis using prefix_bits by blast
qed

text \<open>
  Four candidates that stop at the four stages: flag without the hypothesis bit, pT
  outside the bins, pion rejected by the PID, and one that passes everything.
\<close>

theorem status_prefix_monotonic_witness:
  "emitted (process exExternals exSelector
     [exCandB\<lparr>hfflag := 2\<rparr>, exCandB\<lparr>B_pt := 50\<rparr>,
      exCandB\<lparr>prong1 := exTrackPi\<lparr>getStatusTrackPIDTpcAndTof := PIDRejected\<rparr>\<rparr>,
      exCandB]) = [0, 1, 3, 7] \<and>
   bit (7 :: 32 word) 0 \<and> bit (7 :: 32 word) 1"
proof -
  let ?cs = "[exCandB\<lparr>hfflag := 2\<rparr>, exCandB\<lparr>B_pt := 50\<rparr>,
      exCandB\<lparr>prong1 := exTrackPi\<lparr>getStatusTrackPIDTpcAndTof := PIDRejected\<rparr>\<rparr>, exCandB]"
  have e: "emitted (process exExternals exSelector ?cs) = [0, 1, 3, 7]"
    by (simp add: emitted_process emitted_processCandidate selectionTopol_def
        selectionTopolLog_def findBin_def selectionPID_def ex_defs)
  then have "7 \<in> set (emitted (process exExternals exSelector ?cs))" by simp
  from status_prefix_monotonic [OF this]
  have p: "\<forall>k j. bit (7 :: 32 word) k \<longrightarrow> j < k \<longrightarrow> bit (7 :: 32 word) j" by simp
  have "bit (7 :: 32 word) 2" by simp
  with p [rule_format, of 2 0] p [rule_format, of 2 1]
  have "bit (7 :: 32 word) 0 \<and> bit (7 :: 32 word) 1" by simp
  with e show ?thesis by simp
qed

text \<open>
  Claim C2. A candidate whose \<open>hfflag\<close> lacks the bit of \<open>BplusToD0Pi\<close> gets status 0,
  and writing that row is all \<open>process\<close> does for it: no histogram fill, no call of
  \<open>selectionTopol\<close>, no PID, whatever its other fields are.
\<close>

theorem flag_absent_status_zero:
  "\<not> bit (hfflag c) (DecayType_BplusToD0Pi ext) \<Longrightarrow> processCandidate ext s c = [Output 0]"
  by (simp add: processCandidate_def and_exp_eq_0_iff_not_bit)

theorem flag_absent_status_zero_witness:
  "\<not> bit (hfflag (exCandB\<lparr>hfflag := 6\<rparr>)) (DecayType_BplusToD0Pi exExternals) \<and>
   processCandidate exExternals exSelector (exCandB\<lparr>hfflag := 6\<rparr>) = [Output 0]"
proof -
  have h: "\<not> bit (hfflag (exCandB\<lparr>hfflag := 6\<rparr>)) (DecayType_BplusToD0Pi exExternals)"
    by (simp add: ex_defs)
  from flag_absent_status_zero [OF h] h show ?thesis by simp
qed

subsection \<open>The topological stage\<close>

text \<open>
  Claim C3. The two mass window checks are chosen by the sign of the pion and are never
  both evaluated. A candidate that reaches the step (its pT bin is found and it passes
  the cuts on the pion pT and on the impact parameter product) has exactly one of them
  evaluated: the D0bar check for a positive pion, the D0 check for a negative one.
\<close>

theorem exactly_one_mass_check:
  "\<not> (MassD0bar \<in> set (fst (selectionTopolLog ext s B D P)) \<and>
      MassD0 \<in> set (fst (selectionTopolLog ext s B D P))) \<and>
   (findBin (binsPt s) (B_pt B) \<noteq> - 1 \<longrightarrow>
    \<not> Pi_pt P < cuts s (findBin (binsPt s) (B_pt B)) ''pT Pi'' \<longrightarrow>
    \<not> impactParameterProduct B > cuts s (findBin (binsPt s) (B_pt B)) ''Imp. Par. Product'' \<longrightarrow>
    Pi_sign P \<noteq> 0 \<longrightarrow>
      massChecks (fst (selectionTopolLog ext s B D P)) =
        (if Pi_sign P > 0 then [MassD0bar] else [MassD0]))"
  by (simp add: selectionTopolLog_def massChecks_def Let_def)

theorem exactly_one_mass_check_witness:
  "findBin (binsPt exSelector) (B_pt exCandB) \<noteq> - 1 \<and>
   \<not> Pi_pt exTrackPi < cuts exSelector (findBin (binsPt exSelector) (B_pt exCandB)) ''pT Pi'' \<and>
   \<not> impactParameterProduct exCandB
       > cuts exSelector (findBin (binsPt exSelector) (B_pt exCandB)) ''Imp. Par. Product'' \<and>
   Pi_sign exTrackPi \<noteq> 0 \<and> Pi_sign (exTrackPi\<lparr>Pi_sign := - 1\<rparr>) \<noteq> 0 \<and>
   massChecks (fst (selectionTopolLog exExternals exSelector exCandB exCandD0 exTrackPi)) =
     [MassD0bar] \<and>
   massChecks (fst (selectionTopolLog exExternals exSelector exCandB exCandD0
     (exTrackPi\<lparr>Pi_sign := - 1\<rparr>))) = [MassD0]"
proof -
  have b: "findBin (binsPt exSelector) (B_pt exCandB) \<noteq> - 1"
    by (simp add: findBin_def ex_defs)
  have p: "\<not> Pi_pt exTrackPi < cuts exSelector (findBin (binsPt exSelector) (B_pt exCandB)) ''pT Pi''"
    and p': "\<not> Pi_pt (exTrackPi\<lparr>Pi_sign := - 1\<rparr>)
              < cuts exSelector (findBin (binsPt exSelector) (B_pt exCandB)) ''pT Pi''"
    by (simp_all add: ex_defs)
  have i: "\<not> impactParameterProduct exCandB
       > cuts exSelector (findBin (binsPt exSelector) (B_pt exCandB)) ''Imp. Par. Product''"
    by (simp add: ex_defs)
  have s: "Pi_sign exTrackPi \<noteq> 0" and s': "Pi_sign (exTrackPi\<lparr>Pi_sign := - 1\<rparr>) \<noteq> 0"
    by (simp_all add: ex_defs)
  from exactly_one_mass_check [of exExternals exSelector exCandB exCandD0 exTrackPi]
    exactly_one_mass_check [of exExternals exSelector exCandB exCandD0
      "exTrackPi\<lparr>Pi_sign := - 1\<rparr>"] b p p' i s s'
  show ?thesis by (simp add: ex_defs)
qed

text \<open>
  Claim C7. When \<open>findBin\<close> answers \<open>-1\<close> for the candidate's pT, \<open>selectionTopol\<close>
  returns \<open>false\<close> before it reads any cut.
\<close>

theorem bin_not_found_rejected:
  "findBin (binsPt s) (B_pt c) = - 1 \<Longrightarrow>
     selectionTopolLog ext s c d p = ([], False) \<and> \<not> selectionTopol ext s c d p"
  by (simp add: selectionTopol_def selectionTopolLog_def)

theorem bin_not_found_rejected_witness:
  "findBin (binsPt exSelector) (B_pt (exCandB\<lparr>B_pt := 10\<rparr>)) = - 1 \<and>
   selectionTopolLog exExternals exSelector (exCandB\<lparr>B_pt := 10\<rparr>) exCandD0 exTrackPi =
     ([], False) \<and>
   \<not> selectionTopol exExternals exSelector (exCandB\<lparr>B_pt := 10\<rparr>) exCandD0 exTrackPi"
proof -
  have h: "findBin (binsPt exSelector) (B_pt (exCandB\<lparr>B_pt := 10\<rparr>)) = - 1"
    by (simp add: findBin_def ex_defs)
  from bin_not_found_rejected [OF h] h show ?thesis by simp
qed

subsection \<open>The identification stage\<close>

text \<open>
  Claim C8. With \<open>acceptPIDNotApplicable\<close> set, \<open>selectionPID\<close> returns \<open>true\<close> exactly
  for the statuses other than \<open>PIDRejected\<close>; with it unset, exactly for \<open>PIDAccepted\<close>.
\<close>

theorem selectionPID_iff:
  "selectionPID s st =
     (if acceptPIDNotApplicable s then st \<noteq> PIDRejected else st = PIDAccepted)"
  by (simp add: selectionPID_def)

theorem selectionPID_iff_witness:
  "selectionPID exSelector PIDNotApplicable \<and>
   \<not> selectionPID (exSelector\<lparr>acceptPIDNotApplicable := False\<rparr>) PIDNotApplicable"
  using selectionPID_iff [of exSelector PIDNotApplicable]
    selectionPID_iff [of "exSelector\<lparr>acceptPIDNotApplicable := False\<rparr>" PIDNotApplicable]
  by (simp add: ex_defs)

text \<open>
  Claim C9. A candidate that has the hypothesis bit and passes \<open>selectionTopol\<close> gets
  status 3 when the identification stage is not entered, be it because
  \<open>selectionFlagDAndUsePidInSync\<close> is false or because \<open>usePid\<close> is false; no PID status is
  looked at.
\<close>

theorem pid_not_entered_status_three:
  "bit (hfflag c) (DecayType_BplusToD0Pi ext) \<Longrightarrow>
   selectionTopol ext s c (prong0 c) (prong1 c) \<Longrightarrow>
   \<not> selectionFlagDAndUsePidInSync s \<or> \<not> usePid s \<Longrightarrow>
     emitted (processCandidate ext s c) = [3] \<and> pidCalls (processCandidate ext s c) = []"
  by (auto simp add: processCandidate_def and_exp_eq_0_iff_not_bit Let_def emitted_append
      pidCalls_append selectionTopol_def SETBIT_def RecoSkims_def RecoTopol_def RecoPID_def)

theorem pid_not_entered_status_three_witness:
  "bit (hfflag exCandB) (DecayType_BplusToD0Pi exExternals) \<and>
   selectionTopol exExternals (exSelector\<lparr>usePid := False\<rparr>) exCandB (prong0 exCandB)
     (prong1 exCandB) \<and>
   emitted (processCandidate exExternals (exSelector\<lparr>usePid := False\<rparr>) exCandB) = [3] \<and>
   pidCalls (processCandidate exExternals (exSelector\<lparr>usePid := False\<rparr>) exCandB) = [] \<and>
   emitted (processCandidate exExternals
     (exSelector\<lparr>selectionFlagDAndUsePidInSync := False\<rparr>) exCandB) = [3]"
proof -
  let ?s = "exSelector\<lparr>usePid := False\<rparr>"
  let ?s' = "exSelector\<lparr>selectionFlagDAndUsePidInSync := False\<rparr>"
  have b: "bit (hfflag exCandB) (DecayType_BplusToD0Pi exExternals)"
    by (simp add: ex_defs)
  have t: "selectionTopol exExternals ?s exCandB (prong0 exCandB) (prong1 exCandB)"
    by (simp add: selectionTopol_def selectionTopolLog_def findBin_def ex_defs)
  have t': "selectionTopol exExternals ?s' exCandB (prong0 exCandB) (prong1 exCandB)"
    by (simp add: selectionTopol_def selectionTopolLog_def findBin_def ex_defs)
  have u: "\<not> selectionFlagDAndUsePidInSync ?s \<or> \<not> usePid ?s"
    by (simp add: ex_defs)
  have u': "\<not> selectionFlagDAndUsePidInSync ?s' \<or> \<not> usePid ?s'"
    by (simp add: ex_defs)
  from pid_not_entered_status_three [OF b t u] pid_not_entered_status_three [OF b t' u'] b t
  show ?thesis by simp
qed

section \<open>Properties of the K1 reconstruction\<close>

subsection \<open>The kaon loops in closed form\<close>







subsection \<open>The kaon gates\<close>




subsection \<open>The combinations\<close>

lemma pairStage_fills:
  "list_all (\<lambda>e. pion e = trk1 \<and> kaon e = trk2 \<and> bachelor e = None)
     (fst (pairStage IsMix ext cfg trk1 trk2))"
  by (simp add: pairStage_def Let_def split: sum.splits)

lemma pairStage_rejects:
  "index trk1 = index trk2 \<or> sign trk1 * sign trk2 > 0 \<Longrightarrow>
     pairStage IsMix ext cfg trk1 trk2 = ([], Rejected)"
  by (auto simp add: pairStage_def)

lemma bachelorBody_fills:
  "list_all (\<lambda>e. pion e = trk1 \<and> kaon e = trk2 \<and> bachelor e = Some bTrack)
     (bachelorBody IsMC IsMix ext cfg trk1 trk2 bTrack)"
  by (simp add: bachelorBody_def Let_def)

lemma bachelorBody_rejects:
  "index bTrack = index trk1 \<or> index bTrack = index trk2 \<Longrightarrow>
     bachelorBody IsMC IsMix ext cfg trk1 trk2 bTrack = []"
  by (auto simp add: bachelorBody_def)

text \<open>Every fill of a pair was made after the index test and the sign test let it pass.\<close>

lemma pairBody_fills:
  assumes "e \<in> set (fst (pairBody IsMC IsMix ext cfg dTracks1 trk1 trk2))"
  shows "pion e = trk1 \<and> kaon e = trk2 \<and> index trk1 \<noteq> index trk2 \<and>
         \<not> sign trk1 * sign trk2 > 0 \<and>
         (\<forall>b. bachelor e = Some b \<longrightarrow>
            b \<in> set dTracks1 \<and> index b \<noteq> index trk1 \<and> index b \<noteq> index trk2)"
proof (cases "index trk1 = index trk2 \<or> sign trk1 * sign trk2 > 0")
  case True
  from pairStage_rejects [OF this] assms show ?thesis
    by (simp add: pairBody_def)
next
  case False
  obtain fs r where st: "pairStage IsMix ext cfg trk1 trk2 = (fs, r)"
    by (cases "pairStage IsMix ext cfg trk1 trk2")
  have fs: "\<And>x. x \<in> set fs \<Longrightarrow> pion x = trk1 \<and> kaon x = trk2 \<and> bachelor x = None"
    using pairStage_fills [of trk1 trk2 IsMix ext cfg] st by (simp add: list.pred_set)
  have bs: "\<And>x b. x \<in> set (bachelorBody IsMC IsMix ext cfg trk1 trk2 b) \<Longrightarrow>
              pion x = trk1 \<and> kaon x = trk2 \<and> bachelor x = Some b \<and>
              index b \<noteq> index trk1 \<and> index b \<noteq> index trk2"
  proof -
    fix x b
    assume x: "x \<in> set (bachelorBody IsMC IsMix ext cfg trk1 trk2 b)"
    then have "\<not> (index b = index trk1 \<or> index b = index trk2)"
      using bachelorBody_rejects [of b trk1 trk2 IsMC IsMix ext cfg] by auto
    moreover have "pion x = trk1 \<and> kaon x = trk2 \<and> bachelor x = Some b"
      using bachelorBody_fills [of trk1 trk2 b IsMC IsMix ext cfg] x
      by (simp add: list.pred_set)
    ultimately show "pion x = trk1 \<and> kaon x = trk2 \<and> bachelor x = Some b \<and>
              index b \<noteq> index trk1 \<and> index b \<noteq> index trk2" by simp
  qed
  from assms st have "e \<in> set fs \<or>
      (\<exists>b \<in> set dTracks1. e \<in> set (bachelorBody IsMC IsMix ext cfg trk1 trk2 b))"
    by (cases r) (auto simp add: pairBody_def)
  then show ?thesis
  proof
    assume "e \<in> set fs"
    from fs [OF this] False show ?thesis by simp
  next
    assume "\<exists>b \<in> set dTracks1. e \<in> set (bachelorBody IsMC IsMix ext cfg trk1 trk2 b)"
    then obtain b where b: "b \<in> set dTracks1"
      "e \<in> set (bachelorBody IsMC IsMix ext cfg trk1 trk2 b)"
      by blast
    from bs [OF b(2)] b(1) False show ?thesis by simp
  qed
qed

lemma pairLoop_fills:
  "e \<in> set (fst (pairLoop IsMC IsMix ext cfg dTracks1 pairs)) \<Longrightarrow>
     \<exists>trk1 trk2. (trk1, trk2) \<in> set pairs \<and>
       e \<in> set (fst (pairBody IsMC IsMix ext cfg dTracks1 trk1 trk2))"
proof (induction pairs)
  case Nil
  then show ?case by simp
next
  case (Cons p pairs)
  obtain trk1 trk2 where p: "p = (trk1, trk2)" by (cases p)
  obtain fs r where b: "pairBody IsMC IsMix ext cfg dTracks1 trk1 trk2 = (fs, r)"
    by (cases "pairBody IsMC IsMix ext cfg dTracks1 trk1 trk2")
  from Cons.prems p b
  have "e \<in> set fs \<or> e \<in> set (fst (pairLoop IsMC IsMix ext cfg dTracks1 pairs))"
    by (cases r) auto
  then show ?case
  proof
    assume "e \<in> set fs"
    with b have "e \<in> set (fst (pairBody IsMC IsMix ext cfg dTracks1 trk1 trk2))" by simp
    moreover have "(trk1, trk2) \<in> set (p # pairs)" using p by simp
    ultimately show ?thesis by blast
  next
    assume "e \<in> set (fst (pairLoop IsMC IsMix ext cfg dTracks1 pairs))"
    from Cons.IH [OF this] obtain t1 t2 where
      "(t1, t2) \<in> set pairs" "e \<in> set (fst (pairBody IsMC IsMix ext cfg dTracks1 t1 t2))"
      by blast
    then have "(t1, t2) \<in> set (p # pairs) \<and>
        e \<in> set (fst (pairBody IsMC IsMix ext cfg dTracks1 t1 t2))"
      by simp
    then show ?thesis by blast
  qed
qed

lemma fillHistograms_fills:
  assumes "e \<in> set (fst (fillHistograms IsMC IsMix ext cfg dTracks1 dTracks2))"
  shows "pion e \<in> set dTracks2 \<and> kaon e \<in> set dTracks2 \<and>
         index (pion e) \<noteq> index (kaon e) \<and> \<not> sign (pion e) * sign (kaon e) > 0 \<and>
         (\<forall>b. bachelor e = Some b \<longrightarrow>
            b \<in> set dTracks1 \<and> index b \<noteq> index (pion e) \<and> index b \<noteq> index (kaon e))"
proof -
  from assms obtain trk1 trk2 where
    p: "(trk1, trk2) \<in> set (combinationsFullIndex dTracks2)" and
    e: "e \<in> set (fst (pairBody IsMC IsMix ext cfg dTracks1 trk1 trk2))"
    unfolding fillHistograms_def using pairLoop_fills by blast
  from p have "trk1 \<in> set dTracks2 \<and> trk2 \<in> set dTracks2"
    by (simp add: combinationsFullIndex_def)
  with pairBody_fills [OF e] show ?thesis by simp
qed

lemma opposite_signs:
  "\<not> a * b > 0 \<Longrightarrow> \<not> (0 < a \<and> 0 < b) \<and> \<not> (a < 0 \<and> b < 0)" for a b :: int
  by (auto simp add: zero_less_mult_iff)





text \<open>The example pair, pion 0 and kaon 1 of opposite signs, with bachelor 2, mixed mode.\<close>

lemma exKaon_selected: "kaonPID exK1externals exK1config (exTrack 1 (- 1)) = Inr True"
  by (simp add: kaonPID_def exk kaonPIDloop.simps vecAt_def)

lemma exPair_propagated:
  "pairStage True exK1externals exK1config (exTrack 0 1) (exTrack 1 (- 1)) = ([], Propagated)"
  by (simp add: pairStage_def trackCut_def exKaon_selected) (simp add: exk)

lemma exBachelor_fills:
  "bachelorBody False True exK1externals exK1config (exTrack 0 1) (exTrack 1 (- 1))
     (exTrack 2 1) =
     [Fill ''k1invmass'' None (exTrack 0 1) (exTrack 1 (- 1)) (Some (exTrack 2 1)),
      Fill ''THnK1invmass'' (Some kMatterPos_Mix) (exTrack 0 1) (exTrack 1 (- 1))
        (Some (exTrack 2 1))]"
  by (simp add: bachelorBody_def trackCut_def) (simp add: exk)

lemma exPair_fills:
  "fst (pairBody False True exK1externals exK1config [exTrack 2 1] (exTrack 0 1)
     (exTrack 1 (- 1))) =
     [Fill ''k1invmass'' None (exTrack 0 1) (exTrack 1 (- 1)) (Some (exTrack 2 1)),
      Fill ''THnK1invmass'' (Some kMatterPos_Mix) (exTrack 0 1) (exTrack 1 (- 1))
        (Some (exTrack 2 1))]"
  by (simp add: pairBody_def exPair_propagated exBachelor_fills)

lemma exSelfPair_rejected:
  "pairBody False True exK1externals exK1config [exTrack 2 1] (exTrack 0 1) (exTrack 0 1) =
     ([], None)"
  by (simp add: pairBody_def pairStage_def)

lemma exFill_emitted:
  "Fill ''k1invmass'' None (exTrack 0 1) (exTrack 1 (- 1)) (Some (exTrack 2 1))
     \<in> set (fst (fillHistograms False True exK1externals exK1config [exTrack 2 1]
         [exTrack 0 1, exTrack 1 (- 1)]))"
proof -
  obtain fs r where b: "pairBody False True exK1externals exK1config [exTrack 2 1]
      (exTrack 0 1) (exTrack 1 (- 1)) = (fs, r)"
    by (cases "pairBody False True exK1externals exK1config [exTrack 2 1]
      (exTrack 0 1) (exTrack 1 (- 1))")
  with exPair_fills have fs: "fs = [Fill ''k1invmass'' None (exTrack 0 1) (exTrack 1 (- 1))
      (Some (exTrack 2 1)),
      Fill ''THnK1invmass'' (Some kMatterPos_Mix) (exTrack 0 1) (exTrack 1 (- 1))
        (Some (exTrack 2 1))]"
    by simp
  show ?thesis
    by (cases r)
      (simp_all add: fillHistograms_def combinationsFullIndex_def exSelfPair_rejected b fs)
qed

text \<open>
  Claim C5. No combination that \<open>fillHistograms\<close> fills a histogram for, and no pair that
  it passes on to the bachelor loop, has two daughters of the same charge sign, that is
  both positive or both negative: the product of their signs is never positive. (The
  test of the source is on that product, so a track whose sign field is 0 is not
  turned away by it.)
\<close>

theorem opposite_sign_pairs:
  "(\<forall>e \<in> set (fst (fillHistograms IsMC IsMix ext cfg dTracks1 dTracks2)).
      sign (pion e) * sign (kaon e) \<le> 0 \<and>
      \<not> (0 < sign (pion e) \<and> 0 < sign (kaon e)) \<and>
      \<not> (sign (pion e) < 0 \<and> sign (kaon e) < 0)) \<and>
   (snd (pairStage IsMix ext cfg trk1 trk2) = Propagated \<longrightarrow>
      sign trk1 * sign trk2 \<le> 0 \<and>
      \<not> (0 < sign trk1 \<and> 0 < sign trk2) \<and> \<not> (sign trk1 < 0 \<and> sign trk2 < 0))"
proof (intro conjI ballI impI)
  fix e
  assume "e \<in> set (fst (fillHistograms IsMC IsMix ext cfg dTracks1 dTracks2))"
  from fillHistograms_fills [OF this] have n: "\<not> sign (pion e) * sign (kaon e) > 0" by simp
  then show "sign (pion e) * sign (kaon e) \<le> 0" by simp
  from opposite_signs [OF n]
  show "\<not> (0 < sign (pion e) \<and> 0 < sign (kaon e))"
    "\<not> (sign (pion e) < 0 \<and> sign (kaon e) < 0)" by simp_all
next
  assume "snd (pairStage IsMix ext cfg trk1 trk2) = Propagated"
  then have n: "\<not> sign trk1 * sign trk2 > 0"
    using pairStage_rejects [of trk1 trk2 IsMix ext cfg] by auto
  then show "sign trk1 * sign trk2 \<le> 0" by simp
  from opposite_signs [OF n]
  show "\<not> (0 < sign trk1 \<and> 0 < sign trk2)" "\<not> (sign trk1 < 0 \<and> sign trk2 < 0)"
    by simp_all
qed

theorem opposite_sign_pairs_witness:
  "Fill ''k1invmass'' None (exTrack 0 1) (exTrack 1 (- 1)) (Some (exTrack 2 1))
     \<in> set (fst (fillHistograms False True exK1externals exK1config [exTrack 2 1]
         [exTrack 0 1, exTrack 1 (- 1)])) \<and>
   snd (pairStage True exK1externals exK1config (exTrack 0 1) (exTrack 1 (- 1))) = Propagated \<and>
   \<not> (0 < sign (exTrack 0 1) \<and> 0 < sign (exTrack 1 (- 1))) \<and>
   \<not> (sign (exTrack 0 1) < 0 \<and> sign (exTrack 1 (- 1)) < 0)"
proof -
  let ?e = "Fill ''k1invmass'' None (exTrack 0 1) (exTrack 1 (- 1)) (Some (exTrack 2 1))"
  have p: "snd (pairStage True exK1externals exK1config (exTrack 0 1) (exTrack 1 (- 1)))
      = Propagated"
    by (simp add: exPair_propagated)
  from opposite_sign_pairs [of False True exK1externals exK1config "[exTrack 2 1]"
      "[exTrack 0 1, exTrack 1 (- 1)]" "exTrack 0 1" "exTrack 1 (- 1)"] exFill_emitted
  have "\<not> (0 < sign (pion ?e) \<and> 0 < sign (kaon ?e)) \<and>
        \<not> (sign (pion ?e) < 0 \<and> sign (kaon ?e) < 0)"
    by blast
  with p exFill_emitted show ?thesis by simp
qed

text \<open>
  Claim C6. No combination uses one track index in two roles: the two daughters of a
  pair that is filled or passed on have different indices, and the index of a bachelor
  that is filled with them differs from both.
\<close>

theorem distinct_track_indices:
  "(\<forall>e \<in> set (fst (fillHistograms IsMC IsMix ext cfg dTracks1 dTracks2)).
      index (pion e) \<noteq> index (kaon e) \<and>
      (\<forall>b. bachelor e = Some b \<longrightarrow>
         index b \<noteq> index (pion e) \<and> index b \<noteq> index (kaon e))) \<and>
   (snd (pairStage IsMix ext cfg trk1 trk2) = Propagated \<longrightarrow> index trk1 \<noteq> index trk2) \<and>
   (bachelorBody IsMC IsMix ext cfg trk1 trk2 bTrack \<noteq> [] \<longrightarrow>
      index bTrack \<noteq> index trk1 \<and> index bTrack \<noteq> index trk2)"
proof (intro conjI ballI impI)
  fix e
  assume "e \<in> set (fst (fillHistograms IsMC IsMix ext cfg dTracks1 dTracks2))"
  from fillHistograms_fills [OF this]
  show "index (pion e) \<noteq> index (kaon e)"
    "\<forall>b. bachelor e = Some b \<longrightarrow> index b \<noteq> index (pion e) \<and> index b \<noteq> index (kaon e)"
    by simp_all
next
  assume "snd (pairStage IsMix ext cfg trk1 trk2) = Propagated"
  then show "index trk1 \<noteq> index trk2"
    using pairStage_rejects [of trk1 trk2 IsMix ext cfg] by auto
next
  assume "bachelorBody IsMC IsMix ext cfg trk1 trk2 bTrack \<noteq> []"
  then show "index bTrack \<noteq> index trk1" "index bTrack \<noteq> index trk2"
    using bachelorBody_rejects [of bTrack trk1 trk2 IsMC IsMix ext cfg] by auto
qed

theorem distinct_track_indices_witness:
  "Fill ''k1invmass'' None (exTrack 0 1) (exTrack 1 (- 1)) (Some (exTrack 2 1))
     \<in> set (fst (fillHistograms False True exK1externals exK1config [exTrack 2 1]
         [exTrack 0 1, exTrack 1 (- 1)])) \<and>
   bachelorBody False True exK1externals exK1config (exTrack 0 1) (exTrack 1 (- 1))
     (exTrack 2 1) \<noteq> [] \<and>
   index (exTrack 0 1) \<noteq> index (exTrack 1 (- 1)) \<and>
   index (exTrack 2 1) \<noteq> index (exTrack 0 1) \<and>
   index (exTrack 2 1) \<noteq> index (exTrack 1 (- 1))"
proof -
  let ?e = "Fill ''k1invmass'' None (exTrack 0 1) (exTrack 1 (- 1)) (Some (exTrack 2 1))"
  have b: "bachelorBody False True exK1externals exK1config (exTrack 0 1) (exTrack 1 (- 1))
      (exTrack 2 1) \<noteq> []"
    by (simp add: exBachelor_fills)
  from distinct_track_indices [of False True exK1externals exK1config "[exTrack 2 1]"
      "[exTrack 0 1, exTrack 1 (- 1)]" "exTrack 0 1" "exTrack 1 (- 1)" "exTrack 2 1"]
    exFill_emitted b
  have "index (pion ?e) \<noteq> index (kaon ?e) \<and>
        index (exTrack 2 1) \<noteq> index (exTrack 0 1) \<and>
        index (exTrack 2 1) \<noteq> index (exTrack 1 (- 1))"
    by blast
  with b exFill_emitted show ?thesis by simp
qed

subsection \<open>Reads of the kaon vectors in a run\<close>













end
